theory Spec2Isabelle
  imports Main
begin

section \<open>JSON values and the JavaScript operators the class uses\<close>

text \<open>
  Fragments, stored sections and file contents are JSON values. An object is an
  association list in insertion order; JavaScript's \<open>undefined\<close> is \<open>None\<close> of
  \<open>json option\<close>, \<open>null\<close> is \<open>JNull\<close>. Numbers are integers here: no operation of
  the class computes with them.
\<close>

datatype json =
    JNull
  | JBool bool
  | JNum int
  | JStr string
  | JArr "json list"
  | JObj "(string \<times> json) list"

type_synonym obj = "(string \<times> json) list"

text \<open>\<open>!!x\<close>: the truthiness of a value that may be undefined.\<close>

fun truthy :: "json option \<Rightarrow> bool" where
  "truthy None = False"
| "truthy (Some JNull) = False"
| "truthy (Some (JBool b)) = b"
| "truthy (Some (JNum n)) = (n \<noteq> 0)"
| "truthy (Some (JStr s)) = (s \<noteq> [])"
| "truthy (Some (JArr xs)) = True"
| "truthy (Some (JObj kvs)) = True"

text \<open>\<open>x ?? d\<close>: the default replaces \<open>undefined\<close> and \<open>null\<close> only.\<close>

fun nullish_or :: "json option \<Rightarrow> json \<Rightarrow> json" where
  "nullish_or None d = d"
| "nullish_or (Some JNull) d = d"
| "nullish_or (Some v) d = v"

text \<open>
  \<open>o[k]\<close> on a defined, non-null value: an own property of an object, \<open>undefined\<close>
  when the key is missing. The sections of the document are declared as objects and arrays of
  objects; the built-in properties of strings and arrays (\<open>length\<close>, indices) and the
  properties an object inherits from its prototype (\<open>constructor\<close>, \<open>toString\<close>) are
  not modelled and read as \<open>undefined\<close>.
\<close>

fun get_prop :: "json \<Rightarrow> string \<Rightarrow> json option" where
  "get_prop (JObj kvs) k = map_of kvs k"
| "get_prop v k = None"

text \<open>\<open>x?.k\<close>: optional chaining stops at \<open>undefined\<close> and \<open>null\<close>.\<close>

fun opt_prop :: "json option \<Rightarrow> string \<Rightarrow> json option" where
  "opt_prop None k = None"
| "opt_prop (Some JNull) k = None"
| "opt_prop (Some v) k = get_prop v k"

text \<open>
  \<open>o[k] = v\<close> on the fields of an object: an existing key keeps its position, a new key
  goes to the end.
\<close>

fun set_field :: "string \<Rightarrow> json \<Rightarrow> obj \<Rightarrow> obj" where
  "set_field k v [] = [(k, v)]"
| "set_field k v ((k', v') # kvs) =
     (if k' = k then (k, v) # kvs else (k', v') # set_field k v kvs)"

text \<open>
  \<open>x.k = v\<close> on a stored section. The sections are declared as objects; a value of
  another shape is outside the declared type and is kept as it is here.
\<close>

fun set_prop :: "json \<Rightarrow> string \<Rightarrow> json \<Rightarrow> json" where
  "set_prop (JObj kvs) k v = JObj (set_field k v kvs)"
| "set_prop x k v = x"

section \<open>The merge engine\<close>

text \<open>
  Modelled from the spec: the function \<open>merge\<close> is imported from the package
  \<open>ts-deepmerge\<close>, whose source is not among the repository's files. The definition follows
  section 4.1 of the specification: two keyed maps merge key by key (a key of one side only
  passes through, a key of both recurses), two sequences concatenate (existing, then
  incoming, nothing removed), and in every other case the incoming value overwrites the
  existing one. The operands are not changed; the result is a new value.
\<close>

fun merge :: "json \<Rightarrow> json \<Rightarrow> json"
  and merge_fields :: "obj \<Rightarrow> obj \<Rightarrow> obj" where
  "merge (JObj a) (JObj b) = JObj (merge_fields a b)"
| "merge (JArr xs) (JArr ys) = JArr (xs @ ys)"
| "merge existing incoming = incoming"
| "merge_fields a [] = a"
| "merge_fields a ((k, v) # b) =
     merge_fields
       (set_field k (case map_of a k of None \<Rightarrow> v | Some old \<Rightarrow> merge old v) a) b"

section \<open>The document\<close>

text \<open>
  The fields of class \<open>Themis\<close>. A field that is \<open>undefined\<close> is \<open>None\<close>.
\<close>

record themis =
  openapi :: "json option"
  info :: "json option"
  servers :: "json option"
  paths :: "json option"
  components :: "json option"
  security :: "json option"
  tags :: "json option"
  externalDocs :: "json option"
  apiVersion :: string
  schemaFile :: "string option"

text \<open>
  The calls the class makes to the file system, in the order it makes them:
  \<open>fs.mkdirSync\<close>, the \<open>fs.writeFile\<close> of bootstrap that creates the file with an
  empty object, and the \<open>fs.writeFile\<close> of a flush. The serialised text of a flush is
  represented by the JSON value it encodes.
\<close>

datatype fs_call =
    MkDir string
  | CreateFile string
  | SyncFile string json

record system =
  doc :: themis
  fs_calls :: "fs_call list"

text \<open>\<open>!!s\<close> and \<open>String(s)\<close> on the optional string \<open>schemaFile\<close>.\<close>

fun truthy_str :: "string option \<Rightarrow> bool" where
  "truthy_str None = False"
| "truthy_str (Some s) = (s \<noteq> [])"

fun String :: "string option \<Rightarrow> string" where
  "String None = ''undefined''"
| "String (Some s) = s"

text \<open>
  \<open>shaveDownToSpec\<close>: \<open>pick\<close> keeps the eight publishable fields; \<open>JSON.stringify\<close>
  leaves out the ones that are undefined.
\<close>

fun picked :: "string \<Rightarrow> json option \<Rightarrow> obj" where
  "picked k None = []"
| "picked k (Some v) = [(k, v)]"

definition shaveDownToSpec :: "themis \<Rightarrow> json" where
  "shaveDownToSpec spec = JObj
     (picked ''openapi'' (openapi spec) @
      picked ''info'' (info spec) @
      picked ''servers'' (servers spec) @
      picked ''paths'' (paths spec) @
      picked ''components'' (components spec) @
      picked ''security'' (security spec) @
      picked ''tags'' (tags spec) @
      picked ''externalDocs'' (externalDocs spec))"

text \<open>
  \<open>syncWrap\<close>: run the callback when there is one, serialise the document, and dispatch
  the write when \<open>schemaFile\<close> is truthy; otherwise the flush is skipped.
\<close>

definition syncWrap :: "(system \<Rightarrow> system) option \<Rightarrow> system \<Rightarrow> system" where
  "syncWrap callback s =
     (let s1 = (case callback of None \<Rightarrow> s | Some f \<Rightarrow> f s);
          converted = shaveDownToSpec (doc s1)
      in if truthy_str (schemaFile (doc s1))
         then s1\<lparr>fs_calls := fs_calls s1 @ [SyncFile (String (schemaFile (doc s1))) converted]\<rparr>
         else s1)"

subsection \<open>Mutations of the top-level sections\<close>

definition defineInfo :: "json option \<Rightarrow> system \<Rightarrow> system" where
  "defineInfo i s = syncWrap (Some (\<lambda>s. s\<lparr>doc := (doc s)\<lparr>info :=
     Some (merge (nullish_or (info (doc s)) (JObj [])) (nullish_or i (JObj [])))\<rparr>\<rparr>)) s"

definition defineServers :: "json option \<Rightarrow> system \<Rightarrow> system" where
  "defineServers svs s = syncWrap (Some (\<lambda>s. s\<lparr>doc := (doc s)\<lparr>servers :=
     get_prop (merge (JObj [(''servers'', nullish_or (servers (doc s)) (JArr []))])
                     (JObj [(''servers'', nullish_or svs (JArr []))])) ''servers''\<rparr>\<rparr>)) s"

definition server :: "json \<Rightarrow> system \<Rightarrow> system" where
  "server sv s = defineServers (Some (JArr [sv])) s"

definition defineExternalDocs :: "json option \<Rightarrow> system \<Rightarrow> system" where
  "defineExternalDocs e s = syncWrap (Some (\<lambda>s. s\<lparr>doc := (doc s)\<lparr>externalDocs :=
     Some (merge (nullish_or (externalDocs (doc s)) (JObj [])) (nullish_or e (JObj [])))\<rparr>\<rparr>)) s"

definition defineSecurityRequirements :: "json option \<Rightarrow> system \<Rightarrow> system" where
  "defineSecurityRequirements reqs s = syncWrap (Some (\<lambda>s. s\<lparr>doc := (doc s)\<lparr>security :=
     get_prop (merge (JObj [(''security'', nullish_or (security (doc s)) (JArr []))])
                     (JObj [(''security'', nullish_or reqs (JArr []))])) ''security''\<rparr>\<rparr>)) s"

definition securityRequirement :: "json \<Rightarrow> system \<Rightarrow> system" where
  "securityRequirement req s = defineSecurityRequirements (Some (JArr [req])) s"

definition defineTags :: "json option \<Rightarrow> system \<Rightarrow> system" where
  "defineTags ts s = syncWrap (Some (\<lambda>s. s\<lparr>doc := (doc s)\<lparr>tags :=
     get_prop (merge (JObj [(''tags'', nullish_or (tags (doc s)) (JArr []))])
                     (JObj [(''tags'', nullish_or ts (JArr []))])) ''tags''\<rparr>\<rparr>)) s"

definition definePaths :: "json \<Rightarrow> system \<Rightarrow> system" where
  "definePaths ps s = syncWrap (Some (\<lambda>s. s\<lparr>doc := (doc s)\<lparr>paths :=
     Some (merge (nullish_or (paths (doc s)) (JObj [])) ps)\<rparr>\<rparr>)) s"

definition path :: "string \<Rightarrow> json \<Rightarrow> system \<Rightarrow> system" where
  "path p item s = definePaths (JObj [(p, item)]) s"

definition defineComponents :: "json \<Rightarrow> system \<Rightarrow> system" where
  "defineComponents cs s = syncWrap (Some (\<lambda>s. s\<lparr>doc := (doc s)\<lparr>components :=
     Some (merge (nullish_or (components (doc s)) (JObj [])) cs)\<rparr>\<rparr>)) s"

subsection \<open>The component registry\<close>

text \<open>
  The eight \<open>define...Components\<close> methods have one body, up to the category token: when
  \<open>components\<close> is truthy, the category is replaced by the merge of its current value (or
  \<open>[]\<close> when it is nullish) with the fragment; otherwise \<open>components\<close> becomes an object
  holding the fragment under the category.
\<close>

definition defineCategory :: "string \<Rightarrow> json \<Rightarrow> system \<Rightarrow> system" where
  "defineCategory cat frag s = syncWrap (Some (\<lambda>s.
     if truthy (components (doc s))
     then s\<lparr>doc := (doc s)\<lparr>components :=
            map_option (\<lambda>c. set_prop c cat
              (merge (nullish_or (opt_prop (components (doc s)) cat) (JArr [])) frag))
              (components (doc s))\<rparr>\<rparr>
     else s\<lparr>doc := (doc s)\<lparr>components := Some (JObj [(cat, frag)])\<rparr>\<rparr>)) s"

definition defineCallbackComponents :: "json \<Rightarrow> system \<Rightarrow> system" where
  "defineCallbackComponents callbacks s = defineCategory ''callbacks'' callbacks s"

definition callbackComponent :: "string \<Rightarrow> json \<Rightarrow> system \<Rightarrow> system" where
  "callbackComponent key callback s = defineCallbackComponents (JObj [(key, callback)]) s"

definition defineExampleComponents :: "json \<Rightarrow> system \<Rightarrow> system" where
  "defineExampleComponents examples s = defineCategory ''examples'' examples s"

definition exampleComponent :: "string \<Rightarrow> json \<Rightarrow> system \<Rightarrow> system" where
  "exampleComponent key example s = defineExampleComponents (JObj [(key, example)]) s"

definition defineHeaderComponents :: "json \<Rightarrow> system \<Rightarrow> system" where
  "defineHeaderComponents headers s = defineCategory ''headers'' headers s"

definition headerComponent :: "string \<Rightarrow> json \<Rightarrow> system \<Rightarrow> system" where
  "headerComponent key header s = defineHeaderComponents (JObj [(key, header)]) s"

definition defineLinkComponents :: "json \<Rightarrow> system \<Rightarrow> system" where
  "defineLinkComponents links s = defineCategory ''links'' links s"

definition linkComponent :: "string \<Rightarrow> json \<Rightarrow> system \<Rightarrow> system" where
  "linkComponent key link s = defineLinkComponents (JObj [(key, link)]) s"

definition defineParameterComponents :: "json \<Rightarrow> system \<Rightarrow> system" where
  "defineParameterComponents parameters s = defineCategory ''parameters'' parameters s"

definition parameterComponent :: "string \<Rightarrow> json \<Rightarrow> system \<Rightarrow> system" where
  "parameterComponent key parameter s = defineParameterComponents (JObj [(key, parameter)]) s"

definition defineRequestBodyComponents :: "json \<Rightarrow> system \<Rightarrow> system" where
  "defineRequestBodyComponents requestBodies s = defineCategory ''requestBodies'' requestBodies s"

definition requestBodyComponent :: "string \<Rightarrow> json \<Rightarrow> system \<Rightarrow> system" where
  "requestBodyComponent key requestBody s =
     defineRequestBodyComponents (JObj [(key, requestBody)]) s"

definition defineResponseComponents :: "json \<Rightarrow> system \<Rightarrow> system" where
  "defineResponseComponents responses s = defineCategory ''responses'' responses s"

definition responseComponent :: "string \<Rightarrow> json \<Rightarrow> system \<Rightarrow> system" where
  "responseComponent key response s = defineResponseComponents (JObj [(key, response)]) s"

definition defineSchemaComponents :: "json \<Rightarrow> system \<Rightarrow> system" where
  "defineSchemaComponents schemas s = defineCategory ''schemas'' schemas s"

definition schemaComponent :: "string \<Rightarrow> json \<Rightarrow> system \<Rightarrow> system" where
  "schemaComponent key schema s = defineSchemaComponents (JObj [(key, schema)]) s"

definition defineSecuritySchemeComponents :: "json \<Rightarrow> system \<Rightarrow> system" where
  "defineSecuritySchemeComponents securitySchemes s =
     defineCategory ''securitySchemes'' securitySchemes s"

definition securitySchemeComponent :: "string \<Rightarrow> json \<Rightarrow> system \<Rightarrow> system" where
  "securitySchemeComponent key securityScheme s =
     defineSecuritySchemeComponents (JObj [(key, securityScheme)]) s"

text \<open>
  The eight \<open>get...Component\<close> methods, again one body up to the category token:
  \<open>!!this?.components?.cat ? this?.components?.cat[key] : {}\<close>. The result may be
  \<open>undefined\<close>, hence \<open>json option\<close>. The methods read the document and return a value;
  they assign nothing.
\<close>

definition getCategoryComponent :: "string \<Rightarrow> themis \<Rightarrow> string \<Rightarrow> json option" where
  "getCategoryComponent cat d key =
     (if truthy (opt_prop (components d) cat)
      then opt_prop (opt_prop (components d) cat) key
      else Some (JObj []))"

definition getSchemaComponent :: "themis \<Rightarrow> string \<Rightarrow> json option" where
  "getSchemaComponent d key = getCategoryComponent ''schemas'' d key"

definition getParameterComponent :: "themis \<Rightarrow> string \<Rightarrow> json option" where
  "getParameterComponent d key = getCategoryComponent ''parameters'' d key"

definition getResponseComponent :: "themis \<Rightarrow> string \<Rightarrow> json option" where
  "getResponseComponent d key = getCategoryComponent ''responses'' d key"

definition getHeaderComponent :: "themis \<Rightarrow> string \<Rightarrow> json option" where
  "getHeaderComponent d key = getCategoryComponent ''headers'' d key"

definition getRequestBodyComponent :: "themis \<Rightarrow> string \<Rightarrow> json option" where
  "getRequestBodyComponent d key = getCategoryComponent ''requestBodies'' d key"

definition getSecuritySchemeComponent :: "themis \<Rightarrow> string \<Rightarrow> json option" where
  "getSecuritySchemeComponent d key = getCategoryComponent ''securitySchemes'' d key"

definition getExampleComponent :: "themis \<Rightarrow> string \<Rightarrow> json option" where
  "getExampleComponent d key = getCategoryComponent ''examples'' d key"

definition getCallbackComponent :: "themis \<Rightarrow> string \<Rightarrow> json option" where
  "getCallbackComponent d key = getCategoryComponent ''callbacks'' d key"

text \<open>
  The reference formatters. Each takes the document it is called on (\<open>this\<close>) and the key,
  and returns the reference object; the template string is a concatenation.
\<close>

definition getSchemaComponentRef :: "themis \<Rightarrow> string \<Rightarrow> json" where
  "getSchemaComponentRef d schema = JObj [(''$ref'', JStr (''#/components/schemas/'' @ schema))]"

definition getParameterComponentRef :: "themis \<Rightarrow> string \<Rightarrow> json" where
  "getParameterComponentRef d parameter =
     JObj [(''$ref'', JStr (''#/components/parameters/'' @ parameter))]"

definition getResponseComponentRef :: "themis \<Rightarrow> string \<Rightarrow> json" where
  "getResponseComponentRef d response =
     JObj [(''$ref'', JStr (''#/components/responses/'' @ response))]"

definition getHeaderComponentRef :: "themis \<Rightarrow> string \<Rightarrow> json" where
  "getHeaderComponentRef d Header = JObj [(''$ref'', JStr (''#/components/headers/'' @ Header))]"

definition getRequestBodyComponentRef :: "themis \<Rightarrow> string \<Rightarrow> json" where
  "getRequestBodyComponentRef d requestBody =
     JObj [(''$ref'', JStr (''#/components/requestBodies/'' @ requestBody))]"

definition getSecuritySchemeComponentRef :: "themis \<Rightarrow> string \<Rightarrow> json" where
  "getSecuritySchemeComponentRef d securityScheme =
     JObj [(''$ref'', JStr (''#/components/securitySchemes/'' @ securityScheme))]"

definition getExampleComponentRef :: "themis \<Rightarrow> string \<Rightarrow> json" where
  "getExampleComponentRef d example =
     JObj [(''$ref'', JStr (''#/components/examples/'' @ example))]"

definition getCallbackComponentRef :: "themis \<Rightarrow> string \<Rightarrow> json" where
  "getCallbackComponentRef d callback =
     JObj [(''$ref'', JStr (''#/components/callbacks/'' @ callback))]"

section \<open>Files: reload and bootstrap\<close>

text \<open>
  What the class sees of its surroundings. \<open>files\<close> is the view Node's \<open>require\<close> and
  \<open>fs.existsSync\<close> have of a path: no file, a file that cannot be read, one that does not
  parse, or one that encodes a JSON value. \<open>dirs\<close> tells which directories exist,
  \<open>mkdir_ok\<close> whether \<open>fs.mkdirSync\<close> succeeds on a path, \<open>extname\<close> is Node's
  \<open>path.extname\<close>, and \<open>projectRoot\<close> is what
  \<open>getProjectRoot(getPathToAnyCallerInModule())\<close> returns (it depends on the call stack
  and on the directory tree).
\<close>

datatype fs_entry = Unreadable | Unparsable | Encodes json

datatype error = CannotLoadModule | TypeError | FsError

record env =
  files :: "string \<Rightarrow> fs_entry option"
  dirs :: "string \<Rightarrow> bool"
  mkdir_ok :: "string \<Rightarrow> bool"
  extname :: "string \<Rightarrow> string"
  projectRoot :: string

definition require :: "env \<Rightarrow> string \<Rightarrow> error + json" where
  "require e p = (case files e p of Some (Encodes j) \<Rightarrow> Inr j | _ \<Rightarrow> Inl CannotLoadModule)"

definition existsSync :: "env \<Rightarrow> string \<Rightarrow> bool" where
  "existsSync e p = (files e p \<noteq> None \<or> dirs e p)"

text \<open>
  Reading a property of the loaded value, as the right-hand sides of \<open>loadFromFile\<close> do:
  on \<open>null\<close> the read throws a TypeError (\<open>None\<close> here), on any other value it gives the
  property or \<open>undefined\<close>.
\<close>

fun read_prop :: "json \<Rightarrow> string \<Rightarrow> json option option" where
  "read_prop JNull k = None"
| "read_prop v k = Some (get_prop v k)"

text \<open>
  One assignment \<open>this.f = persistedSpec.k\<close> inside the \<open>try\<close> block. \<open>Inr d\<close> is the
  document while the block runs normally; \<open>Inl d\<close> is the document as it was when an
  exception left the block. Nothing is rolled back.
\<close>

definition assign_from ::
    "json \<Rightarrow> string \<Rightarrow> (json option \<Rightarrow> themis \<Rightarrow> themis) \<Rightarrow> themis + themis \<Rightarrow> themis + themis" where
  "assign_from persistedSpec k upd r =
     (case r of
        Inl d \<Rightarrow> Inl d
      | Inr d \<Rightarrow> (case read_prop persistedSpec k of None \<Rightarrow> Inl d | Some v \<Rightarrow> Inr (upd v d)))"

text \<open>
  \<open>loadFromFile\<close>: the \<open>require\<close> and the eight assignments, in the order of the source,
  inside \<open>try\<close>; the \<open>catch\<close> logs and goes on with the document as it is then. No flush is
  triggered.
\<close>

definition loadFromFile :: "env \<Rightarrow> system \<Rightarrow> system" where
  "loadFromFile e s =
     (case require e (String (schemaFile (doc s))) of
        Inl err \<Rightarrow> s
      | Inr persistedSpec \<Rightarrow>
          (case
             (assign_from persistedSpec ''info'' (\<lambda>v d. d\<lparr>info := v\<rparr>)
             (assign_from persistedSpec ''paths'' (\<lambda>v d. d\<lparr>paths := v\<rparr>)
             (assign_from persistedSpec ''openapi'' (\<lambda>v d. d\<lparr>openapi := v\<rparr>)
             (assign_from persistedSpec ''components'' (\<lambda>v d. d\<lparr>components := v\<rparr>)
             (assign_from persistedSpec ''tags'' (\<lambda>v d. d\<lparr>tags := v\<rparr>)
             (assign_from persistedSpec ''security'' (\<lambda>v d. d\<lparr>security := v\<rparr>)
             (assign_from persistedSpec ''externalDocs'' (\<lambda>v d. d\<lparr>externalDocs := v\<rparr>)
             (assign_from persistedSpec ''servers'' (\<lambda>v d. d\<lparr>servers := v\<rparr>)
               (Inr (doc s))))))))))
           of Inl d \<Rightarrow> s\<lparr>doc := d\<rparr>
            | Inr d \<Rightarrow> s\<lparr>doc := d\<rparr>))"

subsection \<open>Configuration\<close>

record ThemisConfig =
  docsDir :: "string option"
  schemaFilePrefix :: "string option"

definition defaultConfig :: ThemisConfig where
  "defaultConfig = \<lparr>docsDir = Some ''themis'', schemaFilePrefix = Some ''spec.''\<rparr>"

definition checkAndConstructConfig :: "ThemisConfig \<Rightarrow> ThemisConfig" where
  "checkAndConstructConfig config =
     \<lparr>docsDir =
        (if truthy_str (docsDir config) \<and> docsDir config \<noteq> docsDir defaultConfig
         then docsDir config else docsDir defaultConfig),
      schemaFilePrefix =
        (if truthy_str (schemaFilePrefix config) \<and>
            schemaFilePrefix config \<noteq> schemaFilePrefix defaultConfig
         then schemaFilePrefix config else schemaFilePrefix defaultConfig)\<rparr>"

text \<open>
  The configuration read from \<open>themis.config.json\<close>, seen through the declared type
  \<open>ThemisConfig\<close>: two optional strings. On \<open>null\<close> the first property read throws.
  A value that is not a string is outside the declared type; its conversion to text by the
  template string is not modelled, and it reads as \<open>undefined\<close> here.
\<close>

fun str_prop :: "json \<Rightarrow> string \<Rightarrow> string option" where
  "str_prop j k = (case get_prop j k of Some (JStr x) \<Rightarrow> Some x | _ \<Rightarrow> None)"

fun as_config :: "json \<Rightarrow> error + ThemisConfig" where
  "as_config JNull = Inl TypeError"
| "as_config j = Inr \<lparr>docsDir = str_prop j ''docsDir'',
                      schemaFilePrefix = str_prop j ''schemaFilePrefix''\<rparr>"

subsection \<open>Bootstrap\<close>

text \<open>
  \<open>prepareFiles\<close>. The path is built from the configuration; \<open>schemaFile\<close> becomes the
  path when its extension is \<open>.json\<close> and the empty string otherwise; the directory is
  created when it does not exist (\<open>fs.mkdirSync\<close> throws when it fails, and nothing
  catches it); and when \<open>schemaFile\<close> is empty or names no existing file, the write that
  creates the file is dispatched, always to the path that was built.
\<close>

definition prepareFiles :: "env \<Rightarrow> string \<Rightarrow> string \<Rightarrow> ThemisConfig \<Rightarrow> system \<Rightarrow> error + system" where
  "prepareFiles e ver root config s =
     (let schemaFilePath = root @ ''/'' @ String (docsDir config) @ ''/'' @
                           String (schemaFilePrefix config) @ ver @ ''.json'';
          s1 = (if extname e schemaFilePath = ''.json''
                then s\<lparr>doc := (doc s)\<lparr>schemaFile := Some schemaFilePath\<rparr>\<rparr>
                else s\<lparr>doc := (doc s)\<lparr>schemaFile := Some []\<rparr>\<rparr>);
          dir = root @ ''/'' @ String (docsDir config) @ ''/''
      in if \<not> existsSync e dir \<and> \<not> mkdir_ok e dir then Inl FsError
         else
           (let s2 = (if \<not> existsSync e dir then s1\<lparr>fs_calls := fs_calls s1 @ [MkDir dir]\<rparr>
                      else s1)
            in if schemaFile (doc s2) = Some [] \<or> \<not> existsSync e (String (schemaFile (doc s2)))
               then Inr (s2\<lparr>fs_calls := fs_calls s2 @ [CreateFile schemaFilePath]\<rparr>)
               else Inr s2))"

text \<open>
  The callback of that write, run by the event loop once the write has ended, with the path
  it captured: on an error it logs and returns; otherwise it assigns the path to
  \<open>schemaFile\<close>.
\<close>

definition createFileCallback :: "bool \<Rightarrow> string \<Rightarrow> system \<Rightarrow> system" where
  "createFileCallback err schemaFilePath s =
     (if err then s else s\<lparr>doc := (doc s)\<lparr>schemaFile := Some schemaFilePath\<rparr>\<rparr>)"

text \<open>
  The constructor. The field initialisers run first (\<open>openapi = '3.0.0'\<close>,
  \<open>paths = {}\<close>), then \<open>apiVersion\<close> and \<open>info\<close> are assigned, then
  \<open>themis.config.json\<close> is loaded with \<open>require\<close>, which throws when it cannot load the
  file, and only then \<open>config ?? incomingConfig\<close> is evaluated.
\<close>

definition constructor :: "env \<Rightarrow> string \<Rightarrow> json \<Rightarrow> ThemisConfig option \<Rightarrow> error + system" where
  "constructor e ver i config =
     (let s = \<lparr>doc = \<lparr>openapi = Some (JStr ''3.0.0''), info = Some i, servers = None,
                      paths = Some (JObj []), components = None, security = None, tags = None,
                      externalDocs = None, apiVersion = ver, schemaFile = None\<rparr>,
               fs_calls = []\<rparr>
      in case require e (projectRoot e @ ''/themis.config.json'') of
           Inl err \<Rightarrow> Inl err
         | Inr incomingConfig \<Rightarrow>
             (case (case config of Some c \<Rightarrow> Inr c | None \<Rightarrow> as_config incomingConfig) of
                Inl err \<Rightarrow> Inl err
              | Inr c \<Rightarrow> prepareFiles e ver (projectRoot e) (checkAndConstructConfig c) s))"

text \<open>
  Node's \<open>path.extname\<close> on POSIX paths, for concrete environments: the extension of the
  last path component starts at its last dot; there is none when the component has no dot,
  when its only dot is its first character, or when the component is \<open>..\<close>.
\<close>

definition posix_extname :: "string \<Rightarrow> string" where
  "posix_extname p =
     (let trimmed = rev (dropWhile (\<lambda>c. c = CHR ''/'') (rev p));
          base = rev (takeWhile (\<lambda>c. c \<noteq> CHR ''/'') (rev trimmed));
          ext = rev (takeWhile (\<lambda>c. c \<noteq> CHR ''.'') (rev base));
          stem = take (length base - length ext - 1) base
      in if CHR ''.'' \<notin> set base \<or> stem = [] \<or> base = ''..'' then [] else CHR ''.'' # ext)"

text \<open>The names of the tags of a \<open>tags\<close> field, in order.\<close>

definition tag_names :: "json option \<Rightarrow> json option list" where
  "tag_names f = (case f of Some (JArr ts) \<Rightarrow> map (\<lambda>t. get_prop t ''name'') ts | _ \<Rightarrow> [])"

text \<open>
  Reading a stored section by its declared shape: the elements of a sequence-valued field and
  the entries of a map-valued field (none when the field is undefined or \<open>null\<close>), and
  whether the field has the declared shape at all.
\<close>

fun elements :: "json option \<Rightarrow> json list" where
  "elements (Some (JArr xs)) = xs"
| "elements f = []"

fun entries :: "json option \<Rightarrow> obj" where
  "entries (Some (JObj kvs)) = kvs"
| "entries f = []"

fun is_seq_field :: "json option \<Rightarrow> bool" where
  "is_seq_field None = True"
| "is_seq_field (Some JNull) = True"
| "is_seq_field (Some (JArr xs)) = True"
| "is_seq_field f = False"

fun is_map_field :: "json option \<Rightarrow> bool" where
  "is_map_field None = True"
| "is_map_field (Some JNull) = True"
| "is_map_field (Some (JObj kvs)) = True"
| "is_map_field f = False"

section \<open>Concrete documents and environments\<close>

text \<open>
  The pet store of the repository's example: project root \<open>/app\<close>, a configuration file
  holding an empty object, no directory yet, version \<open>v1\<close>.
\<close>

definition pets_info :: json where
  "pets_info = JObj [(''title'', JStr ''Pets API''), (''version'', JStr ''1.0'')]"

definition pets_env :: env where
  "pets_env = \<lparr>files = (\<lambda>p. if p = ''/app/themis.config.json''
                                then Some (Encodes (JObj [])) else None),
               dirs = (\<lambda>p. False), mkdir_ok = (\<lambda>p. True),
               extname = posix_extname, projectRoot = ''/app''\<rparr>"

text \<open>The document right after \<open>new Themis('v1', pets_info)\<close> in that environment.\<close>

definition pets_v1 :: system where
  "pets_v1 = \<lparr>doc = \<lparr>openapi = Some (JStr ''3.0.0''), info = Some pets_info, servers = None,
                     paths = Some (JObj []), components = None, security = None, tags = None,
                     externalDocs = None, apiVersion = ''v1'',
                     schemaFile = Some ''/app/themis/spec.v1.json''\<rparr>,
              fs_calls = [MkDir ''/app/themis/'', CreateFile ''/app/themis/spec.v1.json'']\<rparr>"

definition pets_tag :: json where
  "pets_tag = JObj [(''name'', JStr ''pets'')]"

text \<open>A second, different tag object under the same name.\<close>

definition pets_tag_described :: json where
  "pets_tag_described =
     JObj [(''name'', JStr ''pets''), (''description'', JStr ''Everything about pets'')]"

text \<open>A document whose registry holds the schema \<open>Pet\<close> and nothing else.\<close>

definition pet_schema_doc :: themis where
  "pet_schema_doc = (doc pets_v1)\<lparr>components :=
     Some (JObj [(''schemas'', JObj [(''Pet'', JObj [(''type'', JStr ''object'')])])])\<rparr>"

text \<open>
  The same environment once a specification file is there, holding a format version and one
  tag.
\<close>

definition persisted_spec :: obj where
  "persisted_spec = [(''openapi'', JStr ''3.1.0''), (''tags'', JArr [pets_tag])]"

definition reload_env :: env where
  "reload_env = pets_env\<lparr>files := (\<lambda>p. if p = ''/app/themis/spec.v1.json''
                                         then Some (Encodes (JObj persisted_spec))
                                         else files pets_env p)\<rparr>"

text \<open>An environment without the configuration file, and a complete configuration.\<close>

definition bare_env :: env where
  "bare_env = pets_env\<lparr>files := (\<lambda>p. None)\<rparr>"

definition docs_config :: ThemisConfig where
  "docs_config = \<lparr>docsDir = Some ''docs'', schemaFilePrefix = Some ''api.''\<rparr>"

text \<open>
  A configuration whose prefix is \<open>/\<close>, used with the empty version: the path built is
  \<open>/app/docs//.json\<close>, whose last component \<open>.json\<close> has no extension. \<open>slash_boot\<close>
  is the document right after construction with it.
\<close>

definition slash_config :: ThemisConfig where
  "slash_config = \<lparr>docsDir = Some ''docs'', schemaFilePrefix = Some ''/''\<rparr>"

definition slash_boot :: system where
  "slash_boot = \<lparr>doc = \<lparr>openapi = Some (JStr ''3.0.0''), info = Some pets_info, servers = None,
                        paths = Some (JObj []), components = None, security = None, tags = None,
                        externalDocs = None, apiVersion = [], schemaFile = Some []\<rparr>,
                 fs_calls = [MkDir ''/app/docs/'', CreateFile ''/app/docs//.json'']\<rparr>"

section \<open>Supporting lemmas\<close>

lemma doc_syncWrap: "doc (syncWrap (Some f) s) = doc (f s)"
  by (simp add: syncWrap_def Let_def)

lemma fs_calls_syncWrap_skipped:
  "\<not> truthy_str (schemaFile (doc (f s))) \<Longrightarrow> fs_calls (syncWrap (Some f) s) = fs_calls (f s)"
  by (simp add: syncWrap_def Let_def)

text \<open>
  While \<open>schemaFile\<close> is undefined or empty, a mutation dispatches no write and leaves
  \<open>schemaFile\<close> as it is.
\<close>

lemma flush_skipped_while_unset:
  assumes "\<not> truthy_str (schemaFile (doc s))"
  shows "fs_calls (defineTags ts s) = fs_calls s"
    and "schemaFile (doc (defineTags ts s)) = schemaFile (doc s)"
    and "fs_calls (defineInfo i s) = fs_calls s"
    and "schemaFile (doc (defineInfo i s)) = schemaFile (doc s)"
    and "fs_calls (definePaths ps s) = fs_calls s"
    and "schemaFile (doc (definePaths ps s)) = schemaFile (doc s)"
    and "fs_calls (defineCategory cat frag s) = fs_calls s"
    and "schemaFile (doc (defineCategory cat frag s)) = schemaFile (doc s)"
  using assms
  by (simp_all add: defineTags_def defineInfo_def definePaths_def defineCategory_def
      syncWrap_def Let_def)

lemma doc_defineTags:
  "doc (defineTags ts s) =
     (doc s)\<lparr>tags := Some (merge (nullish_or (tags (doc s)) (JArr [])) (nullish_or ts (JArr [])))\<rparr>"
  by (simp add: defineTags_def doc_syncWrap)

lemma tags_defineTags:
  "tags (doc (defineTags ts s)) =
     Some (merge (nullish_or (tags (doc s)) (JArr [])) (nullish_or ts (JArr [])))"
  by (simp add: doc_defineTags)

lemma servers_defineServers:
  "servers (doc (defineServers svs s)) =
     Some (merge (nullish_or (servers (doc s)) (JArr [])) (nullish_or svs (JArr [])))"
  by (simp add: defineServers_def doc_syncWrap)

lemma security_defineSecurityRequirements:
  "security (doc (defineSecurityRequirements reqs s)) =
     Some (merge (nullish_or (security (doc s)) (JArr [])) (nullish_or reqs (JArr [])))"
  by (simp add: defineSecurityRequirements_def doc_syncWrap)

lemma doc_defineInfo:
  "doc (defineInfo i s) =
     (doc s)\<lparr>info := Some (merge (nullish_or (info (doc s)) (JObj [])) (nullish_or i (JObj [])))\<rparr>"
  by (simp add: defineInfo_def doc_syncWrap)

lemma info_defineInfo:
  "info (doc (defineInfo i s)) =
     Some (merge (nullish_or (info (doc s)) (JObj [])) (nullish_or i (JObj [])))"
  by (simp add: doc_defineInfo)

lemma doc_defineExternalDocs:
  "doc (defineExternalDocs x s) =
     (doc s)\<lparr>externalDocs :=
        Some (merge (nullish_or (externalDocs (doc s)) (JObj [])) (nullish_or x (JObj [])))\<rparr>"
  by (simp add: defineExternalDocs_def doc_syncWrap)

lemma doc_definePaths:
  "doc (definePaths ps s) =
     (doc s)\<lparr>paths := Some (merge (nullish_or (paths (doc s)) (JObj [])) ps)\<rparr>"
  by (simp add: definePaths_def doc_syncWrap)

lemma doc_defineComponents:
  "doc (defineComponents cs s) =
     (doc s)\<lparr>components := Some (merge (nullish_or (components (doc s)) (JObj [])) cs)\<rparr>"
  by (simp add: defineComponents_def doc_syncWrap)

lemma set_field_same: "map_of kvs k = Some v \<Longrightarrow> set_field k v kvs = kvs"
  by (induction kvs) (auto split: if_splits)

lemma set_field_fresh: "map_of kvs k = None \<Longrightarrow> set_field k v kvs = kvs @ [(k, v)]"
  by (induction kvs) (auto split: if_splits)

lemma doc_defineCategory:
  "doc (defineCategory cat frag s) =
     (if truthy (components (doc s))
      then (doc s)\<lparr>components :=
             map_option (\<lambda>c. set_prop c cat
               (merge (nullish_or (opt_prop (components (doc s)) cat) (JArr [])) frag))
               (components (doc s))\<rparr>
      else (doc s)\<lparr>components := Some (JObj [(cat, frag)])\<rparr>)"
  by (simp add: defineCategory_def doc_syncWrap)

lemma merge_seq_field_empty:
  "is_seq_field f \<Longrightarrow> merge (nullish_or f (JArr [])) (JArr []) = JArr (elements f)"
  by (cases f rule: is_seq_field.cases) simp_all

lemma merge_map_field_empty:
  "is_map_field f \<Longrightarrow> merge (nullish_or f (JObj [])) (JObj []) = JObj (entries f)"
  by (cases f rule: is_map_field.cases) simp_all

lemma merge_onto_seq_field:
  "merge (nullish_or f (JArr [])) (JArr ys) = JArr (elements f @ ys)"
  by (cases f rule: elements.cases) simp_all

lemma tag_names_elements: "tag_names f = map (\<lambda>t. get_prop t ''name'') (elements f)"
  by (cases f rule: elements.cases) (simp_all add: tag_names_def)

lemma posix_extname_spec_v1: "posix_extname ''/app/themis/spec.v1.json'' = ''.json''"
  by (simp add: posix_extname_def Let_def)

lemma posix_extname_slash: "posix_extname ''/app/docs//.json'' = []"
  by (simp add: posix_extname_def Let_def)

lemma constructor_pets: "constructor pets_env ''v1'' pets_info None = Inr pets_v1"
  by (simp add: constructor_def pets_env_def pets_v1_def require_def prepareFiles_def
      checkAndConstructConfig_def defaultConfig_def existsSync_def Let_def
      posix_extname_spec_v1)

lemma constructor_slash: "constructor pets_env [] pets_info (Some slash_config) = Inr slash_boot"
  by (simp add: constructor_def pets_env_def slash_boot_def slash_config_def require_def
      prepareFiles_def checkAndConstructConfig_def defaultConfig_def existsSync_def Let_def
      posix_extname_slash)

section \<open>Reading components\<close>

text \<open>
  A category that is absent (or falsy) reads as the empty object, whatever the key. A category
  that is an object reads as its entry under the key, which is \<open>undefined\<close> when the key is
  missing.
\<close>

lemma getCategoryComponent_absent_category:
  "\<not> truthy (opt_prop (components d) cat) \<Longrightarrow> getCategoryComponent cat d key = Some (JObj [])"
  by (simp add: getCategoryComponent_def)

lemma getCategoryComponent_present_category:
  "opt_prop (components d) cat = Some (JObj kvs) \<Longrightarrow>
   getCategoryComponent cat d key = map_of kvs key"
  by (simp add: getCategoryComponent_def)

text \<open>
  C1: reading a component that was never defined returns the empty object, also when the
  category exists and only the key is missing. On a registry that holds the schema \<open>Pet\<close>
  and nothing else, the read of the missing schema \<open>Owner\<close> returns \<open>undefined\<close>, not the
  empty object; the read of \<open>Pet\<close> returns its definition, and the read of a response, whose
  category is absent, returns the empty object.
\<close>

theorem getSchemaComponent_missing_key:
  "getSchemaComponent pet_schema_doc ''Owner'' = None
   \<and> getSchemaComponent pet_schema_doc ''Owner'' \<noteq> Some (JObj [])
   \<and> getSchemaComponent pet_schema_doc ''Pet'' = Some (JObj [(''type'', JStr ''object'')])
   \<and> getResponseComponent pet_schema_doc ''Owner'' = Some (JObj [])"
  by (simp add: getSchemaComponent_def getResponseComponent_def getCategoryComponent_def
      pet_schema_doc_def)

section \<open>Memory-only mode\<close>

text \<open>
  C2: once bootstrap has found an extension other than \<open>.json\<close>, no later flush writes to
  the file. Construction with the prefix \<open>/\<close> and the empty version builds the path
  \<open>/app/docs//.json\<close>, finds no extension, and leaves \<open>schemaFile\<close> empty; a mutation at
  that point dispatches no write. Bootstrap has nevertheless dispatched the write that creates
  the file, and when that write ends without an error its callback assigns the path to
  \<open>schemaFile\<close>: the flush of the next mutation is written to the file.
\<close>

theorem memory_only_mode_ends_with_creation:
  "constructor pets_env [] pets_info (Some slash_config) = Inr slash_boot
   \<and> extname pets_env ''/app/docs//.json'' \<noteq> ''.json''
   \<and> schemaFile (doc slash_boot) = Some []
   \<and> fs_calls (defineTags (Some (JArr [pets_tag])) slash_boot) = fs_calls slash_boot
   \<and> fs_calls (defineTags (Some (JArr [pets_tag]))
                 (createFileCallback False ''/app/docs//.json'' slash_boot))
       = fs_calls slash_boot @
         [SyncFile ''/app/docs//.json''
            (JObj [(''openapi'', JStr ''3.0.0''), (''info'', pets_info), (''paths'', JObj []),
                   (''tags'', JArr [pets_tag])])]"
proof -
  have "extname pets_env ''/app/docs//.json'' \<noteq> ''.json''"
    by (simp add: pets_env_def posix_extname_slash)
  moreover have "schemaFile (doc slash_boot) = Some []"
    by (simp add: slash_boot_def)
  moreover have "fs_calls (defineTags (Some (JArr [pets_tag])) slash_boot) = fs_calls slash_boot"
    by (simp add: slash_boot_def defineTags_def syncWrap_def Let_def)
  moreover have "fs_calls (defineTags (Some (JArr [pets_tag]))
                 (createFileCallback False ''/app/docs//.json'' slash_boot))
       = fs_calls slash_boot @
         [SyncFile ''/app/docs//.json''
            (JObj [(''openapi'', JStr ''3.0.0''), (''info'', pets_info), (''paths'', JObj []),
                   (''tags'', JArr [pets_tag])])]"
    by (simp add: slash_boot_def defineTags_def syncWrap_def createFileCallback_def
        shaveDownToSpec_def Let_def)
  ultimately show ?thesis
    using constructor_slash by simp
qed

section \<open>Merging sequences and empty fragments\<close>

text \<open>
  C3: on a document with no tags yet (the field is undefined or holds no element),
  \<open>defineTags([t1])\<close> followed by \<open>defineTags([t2])\<close> leaves the tags equal to
  \<open>[t1, t2]\<close>, in call order and with nothing removed, for all \<open>t1\<close> and \<open>t2\<close>, equal
  ones included; the same holds for servers and for security requirements.
\<close>

theorem sequence_fragments_concatenate:
  assumes "elements (tags (doc s)) = []" and "elements (servers (doc s)) = []"
    and "elements (security (doc s)) = []"
  shows "tags (doc (defineTags (Some (JArr [t2])) (defineTags (Some (JArr [t1])) s)))
           = Some (JArr [t1, t2])
       \<and> servers (doc (defineServers (Some (JArr [sv2])) (defineServers (Some (JArr [sv1])) s)))
           = Some (JArr [sv1, sv2])
       \<and> security (doc (defineSecurityRequirements (Some (JArr [r2]))
                         (defineSecurityRequirements (Some (JArr [r1])) s)))
           = Some (JArr [r1, r2])"
  using assms
  by (simp add: tags_defineTags servers_defineServers security_defineSecurityRequirements
      merge_onto_seq_field)

theorem sequence_fragments_concatenate_witness:
  "elements (tags (doc pets_v1)) = [] \<and> elements (servers (doc pets_v1)) = []
   \<and> elements (security (doc pets_v1)) = []
   \<and> tags (doc (defineTags (Some (JArr [pets_tag])) (defineTags (Some (JArr [pets_tag])) pets_v1)))
       = Some (JArr [pets_tag, pets_tag])
   \<and> servers (doc (defineServers (Some (JArr [JObj [(''url'', JStr ''/v2'')]]))
                     (defineServers (Some (JArr [JObj [(''url'', JStr ''/v1'')]])) pets_v1)))
       = Some (JArr [JObj [(''url'', JStr ''/v1'')], JObj [(''url'', JStr ''/v2'')]])"
proof -
  have h: "elements (tags (doc pets_v1)) = []" "elements (servers (doc pets_v1)) = []"
    "elements (security (doc pets_v1)) = []"
    by (simp_all add: pets_v1_def)
  from sequence_fragments_concatenate [OF h] show ?thesis
    using h by blast
qed

text \<open>
  A mutation whose fragment is the empty object does not always leave its section as it was:
  right after construction \<open>components\<close> is undefined, and \<open>defineComponents({})\<close>
  makes it the empty object, which the next flush writes; \<open>defineSchemaComponents({})\<close>
  makes it an object holding an empty \<open>schemas\<close>.
\<close>

theorem empty_fragment_defines_section:
  "constructor pets_env ''v1'' pets_info None = Inr pets_v1
   \<and> components (doc pets_v1) = None
   \<and> components (doc (defineComponents (JObj []) pets_v1)) = Some (JObj [])
   \<and> doc (defineComponents (JObj []) pets_v1) \<noteq> doc pets_v1
   \<and> shaveDownToSpec (doc (defineComponents (JObj []) pets_v1)) \<noteq> shaveDownToSpec (doc pets_v1)
   \<and> components (doc (defineSchemaComponents (JObj []) pets_v1))
       = Some (JObj [(''schemas'', JObj [])])"
proof -
  have "components (doc pets_v1) = None"
    by (simp add: pets_v1_def)
  moreover have c: "components (doc (defineComponents (JObj []) pets_v1)) = Some (JObj [])"
    by (simp add: doc_defineComponents pets_v1_def)
  moreover have "doc (defineComponents (JObj []) pets_v1) \<noteq> doc pets_v1"
  proof
    assume "doc (defineComponents (JObj []) pets_v1) = doc pets_v1"
    then have "components (doc (defineComponents (JObj []) pets_v1)) = components (doc pets_v1)"
      by simp
    then show False using c by (simp add: pets_v1_def)
  qed
  moreover have "shaveDownToSpec (doc (defineComponents (JObj []) pets_v1))
                   \<noteq> shaveDownToSpec (doc pets_v1)"
    by (simp add: doc_defineComponents shaveDownToSpec_def pets_v1_def)
  moreover have "components (doc (defineSchemaComponents (JObj []) pets_v1))
       = Some (JObj [(''schemas'', JObj [])])"
    by (simp add: defineSchemaComponents_def doc_defineCategory pets_v1_def)
  ultimately show ?thesis
    using constructor_pets by blast
qed

text \<open>
  C4, as amended: merging the empty object into any keyed map \<open>D\<close> gives \<open>D\<close>, so a
  mutation whose fragment is the empty object leaves the in-memory document as it is when
  the section it addresses already holds a keyed map (components, paths, info, external
  documentation, and a component category that exists). A section that is still undefined
  becomes the empty object; a category that is missing from existing components is added
  as the empty object, and with undefined components the components become an object
  holding the empty category. The nine category mutations are \<open>defineCategory\<close> at
  their tokens.
\<close>

theorem empty_fragment_keeps_or_creates:
  "merge (JObj D) (JObj []) = JObj D
   \<and> (components (doc s) = Some (JObj D) \<longrightarrow> doc (defineComponents (JObj []) s) = doc s)
   \<and> (paths (doc s) = Some (JObj D) \<longrightarrow> doc (definePaths (JObj []) s) = doc s)
   \<and> (info (doc s) = Some (JObj D) \<longrightarrow> doc (defineInfo (Some (JObj [])) s) = doc s)
   \<and> (externalDocs (doc s) = Some (JObj D) \<longrightarrow>
        doc (defineExternalDocs (Some (JObj [])) s) = doc s)
   \<and> (components (doc s) = None \<longrightarrow>
        doc (defineComponents (JObj []) s) = (doc s)\<lparr>components := Some (JObj [])\<rparr>)
   \<and> (paths (doc s) = None \<longrightarrow>
        doc (definePaths (JObj []) s) = (doc s)\<lparr>paths := Some (JObj [])\<rparr>)
   \<and> (info (doc s) = None \<longrightarrow>
        doc (defineInfo (Some (JObj [])) s) = (doc s)\<lparr>info := Some (JObj [])\<rparr>)
   \<and> (externalDocs (doc s) = None \<longrightarrow>
        doc (defineExternalDocs (Some (JObj [])) s) = (doc s)\<lparr>externalDocs := Some (JObj [])\<rparr>)
   \<and> (components (doc s) = Some (JObj C) \<and> map_of C cat = Some (JObj D) \<longrightarrow>
        doc (defineCategory cat (JObj []) s) = doc s)
   \<and> (components (doc s) = Some (JObj C) \<and> map_of C cat = None \<longrightarrow>
        doc (defineCategory cat (JObj []) s)
          = (doc s)\<lparr>components := Some (JObj (C @ [(cat, JObj [])]))\<rparr>)
   \<and> (components (doc s) = None \<longrightarrow>
        doc (defineCategory cat (JObj []) s)
          = (doc s)\<lparr>components := Some (JObj [(cat, JObj [])])\<rparr>)
   \<and> defineSchemaComponents fr s = defineCategory ''schemas'' fr s
   \<and> defineParameterComponents fr s = defineCategory ''parameters'' fr s
   \<and> defineResponseComponents fr s = defineCategory ''responses'' fr s
   \<and> defineHeaderComponents fr s = defineCategory ''headers'' fr s
   \<and> defineRequestBodyComponents fr s = defineCategory ''requestBodies'' fr s
   \<and> defineSecuritySchemeComponents fr s = defineCategory ''securitySchemes'' fr s
   \<and> defineExampleComponents fr s = defineCategory ''examples'' fr s
   \<and> defineLinkComponents fr s = defineCategory ''links'' fr s
   \<and> defineCallbackComponents fr s = defineCategory ''callbacks'' fr s"
proof -
  have top: "components (doc s) = Some (JObj D) \<longrightarrow> doc (defineComponents (JObj []) s) = doc s"
    "paths (doc s) = Some (JObj D) \<longrightarrow> doc (definePaths (JObj []) s) = doc s"
    "info (doc s) = Some (JObj D) \<longrightarrow> doc (defineInfo (Some (JObj [])) s) = doc s"
    "externalDocs (doc s) = Some (JObj D) \<longrightarrow> doc (defineExternalDocs (Some (JObj [])) s) = doc s"
    by (simp_all add: doc_defineComponents doc_definePaths doc_defineInfo doc_defineExternalDocs)
  have und: "components (doc s) = None \<longrightarrow>
        doc (defineComponents (JObj []) s) = (doc s)\<lparr>components := Some (JObj [])\<rparr>"
    "paths (doc s) = None \<longrightarrow> doc (definePaths (JObj []) s) = (doc s)\<lparr>paths := Some (JObj [])\<rparr>"
    "info (doc s) = None \<longrightarrow>
        doc (defineInfo (Some (JObj [])) s) = (doc s)\<lparr>info := Some (JObj [])\<rparr>"
    "externalDocs (doc s) = None \<longrightarrow>
        doc (defineExternalDocs (Some (JObj [])) s) = (doc s)\<lparr>externalDocs := Some (JObj [])\<rparr>"
    by (simp_all add: doc_defineComponents doc_definePaths doc_defineInfo doc_defineExternalDocs)
  have cat1: "components (doc s) = Some (JObj C) \<and> map_of C cat = Some (JObj D) \<longrightarrow>
        doc (defineCategory cat (JObj []) s) = doc s"
    by (simp add: doc_defineCategory set_field_same)
  have cat2: "components (doc s) = Some (JObj C) \<and> map_of C cat = None \<longrightarrow>
        doc (defineCategory cat (JObj []) s)
          = (doc s)\<lparr>components := Some (JObj (C @ [(cat, JObj [])]))\<rparr>"
    by (simp add: doc_defineCategory set_field_fresh)
  have cat3: "components (doc s) = None \<longrightarrow>
        doc (defineCategory cat (JObj []) s)
          = (doc s)\<lparr>components := Some (JObj [(cat, JObj [])])\<rparr>"
    by (simp add: doc_defineCategory)
  have m: "merge (JObj D) (JObj []) = JObj D" by simp
  show ?thesis
    unfolding defineSchemaComponents_def defineParameterComponents_def
      defineResponseComponents_def defineHeaderComponents_def defineRequestBodyComponents_def
      defineSecuritySchemeComponents_def defineExampleComponents_def defineLinkComponents_def
      defineCallbackComponents_def
    using m top und cat1 cat2 cat3 by blast
qed

theorem empty_fragment_keeps_or_creates_witness:
  "paths (doc pets_v1) = Some (JObj [])
   \<and> doc (definePaths (JObj []) pets_v1) = doc pets_v1
   \<and> info (doc pets_v1) = Some pets_info
   \<and> doc (defineInfo (Some (JObj [])) pets_v1) = doc pets_v1
   \<and> components (doc pets_v1) = None
   \<and> components (doc (defineComponents (JObj []) pets_v1)) = Some (JObj [])
   \<and> externalDocs (doc pets_v1) = None
   \<and> externalDocs (doc (defineExternalDocs (Some (JObj [])) pets_v1)) = Some (JObj [])
   \<and> components (doc (defineLinkComponents (JObj []) pets_v1))
       = Some (JObj [(''links'', JObj [])])
   \<and> doc (defineComponents (JObj []) (pets_v1\<lparr>doc := pet_schema_doc\<rparr>)) = pet_schema_doc
   \<and> doc (defineSchemaComponents (JObj []) (pets_v1\<lparr>doc := pet_schema_doc\<rparr>))
       = pet_schema_doc
   \<and> components (doc (defineResponseComponents (JObj []) (pets_v1\<lparr>doc := pet_schema_doc\<rparr>)))
       = Some (JObj [(''schemas'', JObj [(''Pet'', JObj [(''type'', JStr ''object'')])]),
                     (''responses'', JObj [])])"
proof -
  let ?pet = "pets_v1\<lparr>doc := pet_schema_doc\<rparr>"
  let ?C = "[(''schemas'', JObj [(''Pet'', JObj [(''type'', JStr ''object'')])])]"
  let ?P = "[(''type'', JStr ''object'')]"
  have a: "paths (doc pets_v1) = Some (JObj [])" "components (doc pets_v1) = None"
    "externalDocs (doc pets_v1) = None"
    by (simp_all add: pets_v1_def)
  have i: "info (doc pets_v1) = Some (JObj [(''title'', JStr ''Pets API''), (''version'', JStr ''1.0'')])"
    "info (doc pets_v1) = Some pets_info"
    by (simp_all add: pets_v1_def pets_info_def)
  have b: "components (doc ?pet) = Some (JObj ?C)" "doc ?pet = pet_schema_doc"
    "map_of ?C ''schemas'' = Some (JObj [(''Pet'', JObj ?P)])" "map_of ?C ''responses'' = None"
    by (simp_all add: pet_schema_doc_def)
  note t1 = empty_fragment_keeps_or_creates [of "[]" pets_v1 _ "''links''"]
  note t2 = empty_fragment_keeps_or_creates
              [of "[(''title'', JStr ''Pets API''), (''version'', JStr ''1.0'')]" pets_v1]
  note t3 = empty_fragment_keeps_or_creates [of ?C ?pet]
  note t4 = empty_fragment_keeps_or_creates [of "[(''Pet'', JObj ?P)]" ?pet ?C "''schemas''"]
  note t5 = empty_fragment_keeps_or_creates [of _ ?pet ?C "''responses''"]
  have "doc (definePaths (JObj []) pets_v1) = doc pets_v1"
    using t1 a(1) by blast
  moreover have "doc (defineInfo (Some (JObj [])) pets_v1) = doc pets_v1"
    using t2 i(1) by blast
  moreover have "components (doc (defineComponents (JObj []) pets_v1)) = Some (JObj [])"
  proof -
    from t1 a(2) have "doc (defineComponents (JObj []) pets_v1)
        = (doc pets_v1)\<lparr>components := Some (JObj [])\<rparr>" by blast
    then show ?thesis by simp
  qed
  moreover have "externalDocs (doc (defineExternalDocs (Some (JObj [])) pets_v1)) = Some (JObj [])"
  proof -
    from t1 a(3) have "doc (defineExternalDocs (Some (JObj [])) pets_v1)
        = (doc pets_v1)\<lparr>externalDocs := Some (JObj [])\<rparr>" by blast
    then show ?thesis by simp
  qed
  moreover have "components (doc (defineLinkComponents (JObj []) pets_v1))
       = Some (JObj [(''links'', JObj [])])"
  proof -
    from t1 a(2) have "doc (defineCategory ''links'' (JObj []) pets_v1)
        = (doc pets_v1)\<lparr>components := Some (JObj [(''links'', JObj [])])\<rparr>" by blast
    moreover from t1 have "defineLinkComponents (JObj []) pets_v1
        = defineCategory ''links'' (JObj []) pets_v1" by blast
    ultimately show ?thesis by simp
  qed
  moreover have "doc (defineComponents (JObj []) ?pet) = pet_schema_doc"
    using t3 b(1) b(2) by metis
  moreover have "doc (defineSchemaComponents (JObj []) ?pet) = pet_schema_doc"
  proof -
    from t4 b(1) b(3) have "doc (defineCategory ''schemas'' (JObj []) ?pet) = doc ?pet" by blast
    moreover from t4 have "defineSchemaComponents (JObj []) ?pet
        = defineCategory ''schemas'' (JObj []) ?pet" by blast
    ultimately show ?thesis using b(2) by simp
  qed
  moreover have "components (doc (defineResponseComponents (JObj []) ?pet))
       = Some (JObj [(''schemas'', JObj [(''Pet'', JObj [(''type'', JStr ''object'')])]),
                     (''responses'', JObj [])])"
  proof -
    from t5 b(1) b(4) have "doc (defineCategory ''responses'' (JObj []) ?pet)
        = (doc ?pet)\<lparr>components := Some (JObj (?C @ [(''responses'', JObj [])]))\<rparr>" by blast
    moreover from t5 have "defineResponseComponents (JObj []) ?pet
        = defineCategory ''responses'' (JObj []) ?pet" by blast
    ultimately show ?thesis by simp
  qed
  ultimately show ?thesis
    using a i(2) by blast
qed

section \<open>Reload\<close>

lemma loadFromFile_object:
  assumes "files e (String (schemaFile (doc s))) = Some (Encodes (JObj X))"
  shows "loadFromFile e s =
     s\<lparr>doc := (doc s)\<lparr>servers := map_of X ''servers'', externalDocs := map_of X ''externalDocs'',
                       security := map_of X ''security'', tags := map_of X ''tags'',
                       components := map_of X ''components'', openapi := map_of X ''openapi'',
                       paths := map_of X ''paths'', info := map_of X ''info''\<rparr>\<rparr>"
  using assms by (simp add: loadFromFile_def require_def assign_from_def)

lemma loadFromFile_failure:
  assumes "files e (String (schemaFile (doc s)))
             \<in> {None, Some Unreadable, Some Unparsable, Some (Encodes JNull)}"
  shows "loadFromFile e s = s"
  using assms by (auto simp add: loadFromFile_def require_def assign_from_def)

text \<open>
  C5: when the file encodes a document \<open>X\<close>, every publishable field of the document in
  memory becomes the field of \<open>X\<close> under the same name, and is cleared when \<open>X\<close> has none;
  the version, the file path and the file-system calls stay as they were. When the file is
  absent, unreadable or unparsable (or encodes \<open>null\<close>), the whole state stays as it was:
  no field is assigned.
\<close>

theorem loadFromFile_replaces_or_keeps:
  "(files e (String (schemaFile (doc s))) = Some (Encodes (JObj X)) \<longrightarrow>
      openapi (doc (loadFromFile e s)) = map_of X ''openapi''
    \<and> info (doc (loadFromFile e s)) = map_of X ''info''
    \<and> servers (doc (loadFromFile e s)) = map_of X ''servers''
    \<and> paths (doc (loadFromFile e s)) = map_of X ''paths''
    \<and> components (doc (loadFromFile e s)) = map_of X ''components''
    \<and> security (doc (loadFromFile e s)) = map_of X ''security''
    \<and> tags (doc (loadFromFile e s)) = map_of X ''tags''
    \<and> externalDocs (doc (loadFromFile e s)) = map_of X ''externalDocs''
    \<and> apiVersion (doc (loadFromFile e s)) = apiVersion (doc s)
    \<and> schemaFile (doc (loadFromFile e s)) = schemaFile (doc s)
    \<and> fs_calls (loadFromFile e s) = fs_calls s)
   \<and> (files e (String (schemaFile (doc s)))
         \<in> {None, Some Unreadable, Some Unparsable, Some (Encodes JNull)} \<longrightarrow>
      loadFromFile e s = s)"
proof (intro conjI impI)
  assume "files e (String (schemaFile (doc s)))
            \<in> {None, Some Unreadable, Some Unparsable, Some (Encodes JNull)}"
  then show "loadFromFile e s = s" by (rule loadFromFile_failure)
qed (simp_all add: loadFromFile_object)

theorem loadFromFile_replaces_or_keeps_witness:
  "files reload_env (String (schemaFile (doc pets_v1))) = Some (Encodes (JObj persisted_spec))
   \<and> openapi (doc (loadFromFile reload_env pets_v1)) = Some (JStr ''3.1.0'')
   \<and> tags (doc (loadFromFile reload_env pets_v1)) = Some (JArr [pets_tag])
   \<and> info (doc (loadFromFile reload_env pets_v1)) = None
   \<and> paths (doc (loadFromFile reload_env pets_v1)) = None
   \<and> files pets_env (String (schemaFile (doc pets_v1))) = None
   \<and> loadFromFile pets_env pets_v1 = pets_v1"
  using loadFromFile_replaces_or_keeps [of reload_env pets_v1 persisted_spec]
    loadFromFile_replaces_or_keeps [of pets_env pets_v1]
  by (simp add: reload_env_def pets_env_def pets_v1_def persisted_spec_def)

section \<open>Tag names\<close>

text \<open>
  Tag names are not pairwise distinct in every reachable state: right after construction,
  defining a tag named \<open>pets\<close> and then another tag object of the same name leaves both
  in the list.
\<close>

theorem tag_names_not_unique:
  "constructor pets_env ''v1'' pets_info None = Inr pets_v1
   \<and> pets_tag \<noteq> pets_tag_described
   \<and> tags (doc (defineTags (Some (JArr [pets_tag_described]))
                  (defineTags (Some (JArr [pets_tag])) pets_v1)))
       = Some (JArr [pets_tag, pets_tag_described])
   \<and> \<not> distinct (tag_names (tags (doc (defineTags (Some (JArr [pets_tag_described]))
                                        (defineTags (Some (JArr [pets_tag])) pets_v1)))))"
proof -
  have "tags (doc (defineTags (Some (JArr [pets_tag_described]))
                  (defineTags (Some (JArr [pets_tag])) pets_v1)))
       = Some (JArr [pets_tag, pets_tag_described])"
    by (simp add: tags_defineTags pets_v1_def)
  then show ?thesis
    using constructor_pets
    by (simp add: tag_names_def pets_tag_def pets_tag_described_def)
qed

text \<open>
  C6, as amended: the document does not enforce distinct tag names. \<open>defineTags\<close> appends the
  names of the incoming tags to the names already there, in order and without looking at
  them; so the names are pairwise distinct afterwards exactly when they were distinct
  before, the incoming names are distinct, and no incoming name was already there.
\<close>

theorem defineTags_appends_names:
  "tag_names (tags (doc (defineTags (Some (JArr new)) s)))
     = tag_names (tags (doc s)) @ tag_names (Some (JArr new))
   \<and> (distinct (tag_names (tags (doc (defineTags (Some (JArr new)) s)))) \<longleftrightarrow>
        distinct (tag_names (tags (doc s))) \<and> distinct (tag_names (Some (JArr new)))
        \<and> set (tag_names (tags (doc s))) \<inter> set (tag_names (Some (JArr new))) = {})"
proof -
  have "tag_names (tags (doc (defineTags (Some (JArr new)) s)))
     = tag_names (tags (doc s)) @ tag_names (Some (JArr new))"
    by (simp add: tags_defineTags merge_onto_seq_field tag_names_elements)
  then show ?thesis by simp
qed

section \<open>References and convenience operations\<close>

text \<open>
  C7: for every key \<open>k\<close> and every document, each reference accessor returns exactly the
  object whose only field \<open>$ref\<close> is \<open>#/components/<category>/\<close> followed by \<open>k\<close>, with
  the fixed token of its category. The result does not depend on the document, and the
  accessor returns a value only: the document is not changed.
\<close>

theorem component_refs_are_formatters:
  "getSchemaComponentRef d k = JObj [(''$ref'', JStr (''#/components/schemas/'' @ k))]
   \<and> getParameterComponentRef d k = JObj [(''$ref'', JStr (''#/components/parameters/'' @ k))]
   \<and> getResponseComponentRef d k = JObj [(''$ref'', JStr (''#/components/responses/'' @ k))]
   \<and> getHeaderComponentRef d k = JObj [(''$ref'', JStr (''#/components/headers/'' @ k))]
   \<and> getRequestBodyComponentRef d k
       = JObj [(''$ref'', JStr (''#/components/requestBodies/'' @ k))]
   \<and> getSecuritySchemeComponentRef d k
       = JObj [(''$ref'', JStr (''#/components/securitySchemes/'' @ k))]
   \<and> getExampleComponentRef d k = JObj [(''$ref'', JStr (''#/components/examples/'' @ k))]
   \<and> getCallbackComponentRef d k = JObj [(''$ref'', JStr (''#/components/callbacks/'' @ k))]"
  by (simp add: getSchemaComponentRef_def getParameterComponentRef_def
      getResponseComponentRef_def getHeaderComponentRef_def getRequestBodyComponentRef_def
      getSecuritySchemeComponentRef_def getExampleComponentRef_def getCallbackComponentRef_def)

text \<open>
  C8: every singular operation gives the same state, document and file-system calls alike, as
  the batch operation on a batch of one: \<open>path\<close> and \<open>definePaths\<close>, \<open>server\<close> and
  \<open>defineServers\<close>, \<open>schemaComponent\<close> and \<open>defineSchemaComponents\<close>, and likewise for
  security requirements and the other component categories.
\<close>

theorem singular_is_batch_of_one:
  "path p item s = definePaths (JObj [(p, item)]) s
   \<and> server sv s = defineServers (Some (JArr [sv])) s
   \<and> securityRequirement req s = defineSecurityRequirements (Some (JArr [req])) s
   \<and> schemaComponent k v s = defineSchemaComponents (JObj [(k, v)]) s
   \<and> parameterComponent k v s = defineParameterComponents (JObj [(k, v)]) s
   \<and> responseComponent k v s = defineResponseComponents (JObj [(k, v)]) s
   \<and> headerComponent k v s = defineHeaderComponents (JObj [(k, v)]) s
   \<and> requestBodyComponent k v s = defineRequestBodyComponents (JObj [(k, v)]) s
   \<and> securitySchemeComponent k v s = defineSecuritySchemeComponents (JObj [(k, v)]) s
   \<and> exampleComponent k v s = defineExampleComponents (JObj [(k, v)]) s
   \<and> linkComponent k v s = defineLinkComponents (JObj [(k, v)]) s
   \<and> callbackComponent k v s = defineCallbackComponents (JObj [(k, v)]) s"
  by (simp add: path_def server_def securityRequirement_def schemaComponent_def
      parameterComponent_def responseComponent_def headerComponent_def
      requestBodyComponent_def securitySchemeComponent_def exampleComponent_def
      linkComponent_def callbackComponent_def)

section \<open>Construction\<close>

text \<open>
  C9: the constructor loads \<open>themis.config.json\<close> under the project root before it looks at
  the configuration argument. When that file is absent the construction fails with the error
  of \<open>require\<close>, whatever configuration was passed, a complete one included.
\<close>

theorem constructor_needs_config_file:
  assumes "files e (projectRoot e @ ''/themis.config.json'') = None"
  shows "constructor e ver i config = Inl CannotLoadModule"
  using assms by (simp add: constructor_def require_def)

theorem constructor_needs_config_file_witness:
  "files bare_env (projectRoot bare_env @ ''/themis.config.json'') = None
   \<and> constructor bare_env ''v1'' pets_info (Some docs_config) = Inl CannotLoadModule"
  using constructor_needs_config_file [of bare_env "''v1''" pets_info "Some docs_config"]
  by (simp add: bare_env_def)

section \<open>Nullish fragments\<close>

text \<open>
  C10: \<open>defineTags\<close>, \<open>defineServers\<close>, \<open>defineSecurityRequirements\<close> and \<open>defineInfo\<close>
  accept \<open>null\<close> and \<open>undefined\<close>. On a document whose fields have their declared shapes,
  the call returns a state (nothing is thrown), it does what the call with the empty
  sequence or the empty object does, and the field holds the elements (or entries) it held
  before: a field that was undefined holds none, as the empty sequence or object.
\<close>

theorem nullish_fragment_tolerated:
  assumes "n = None \<or> n = Some JNull"
    and "is_seq_field (tags (doc s))" and "is_seq_field (servers (doc s))"
    and "is_seq_field (security (doc s))" and "is_map_field (info (doc s))"
  shows "tags (doc (defineTags n s)) = Some (JArr (elements (tags (doc s))))
       \<and> servers (doc (defineServers n s)) = Some (JArr (elements (servers (doc s))))
       \<and> security (doc (defineSecurityRequirements n s))
           = Some (JArr (elements (security (doc s))))
       \<and> info (doc (defineInfo n s)) = Some (JObj (entries (info (doc s))))
       \<and> elements (tags (doc (defineTags n s))) = elements (tags (doc s))
       \<and> elements (servers (doc (defineServers n s))) = elements (servers (doc s))
       \<and> elements (security (doc (defineSecurityRequirements n s)))
           = elements (security (doc s))
       \<and> entries (info (doc (defineInfo n s))) = entries (info (doc s))
       \<and> defineTags n s = defineTags (Some (JArr [])) s
       \<and> defineServers n s = defineServers (Some (JArr [])) s
       \<and> defineSecurityRequirements n s = defineSecurityRequirements (Some (JArr [])) s
       \<and> defineInfo n s = defineInfo (Some (JObj [])) s"
proof -
  have arr: "nullish_or n (JArr []) = JArr []" and ob: "nullish_or n (JObj []) = JObj []"
    using assms(1) by auto
  have t: "tags (doc (defineTags n s)) = Some (JArr (elements (tags (doc s))))"
    by (simp add: tags_defineTags arr merge_seq_field_empty assms(2))
  have sv: "servers (doc (defineServers n s)) = Some (JArr (elements (servers (doc s))))"
    by (simp add: servers_defineServers arr merge_seq_field_empty assms(3))
  have sec: "security (doc (defineSecurityRequirements n s))
           = Some (JArr (elements (security (doc s))))"
    by (simp add: security_defineSecurityRequirements arr merge_seq_field_empty assms(4))
  have inf: "info (doc (defineInfo n s)) = Some (JObj (entries (info (doc s))))"
    by (simp add: info_defineInfo ob merge_map_field_empty assms(5))
  have t': "elements (tags (doc (defineTags n s))) = elements (tags (doc s))"
    and sv': "elements (servers (doc (defineServers n s))) = elements (servers (doc s))"
    and sec': "elements (security (doc (defineSecurityRequirements n s)))
                 = elements (security (doc s))"
    and inf': "entries (info (doc (defineInfo n s))) = entries (info (doc s))"
    by (simp_all add: t sv sec inf)
  have e1: "defineTags n s = defineTags (Some (JArr [])) s"
    by (simp add: defineTags_def arr)
  have e2: "defineServers n s = defineServers (Some (JArr [])) s"
    by (simp add: defineServers_def arr)
  have e3: "defineSecurityRequirements n s = defineSecurityRequirements (Some (JArr [])) s"
    by (simp add: defineSecurityRequirements_def arr)
  have e4: "defineInfo n s = defineInfo (Some (JObj [])) s"
    by (simp add: defineInfo_def ob)
  from t sv sec inf t' sv' sec' inf' e1 e2 e3 e4 show ?thesis
    by blast
qed

theorem nullish_fragment_tolerated_witness:
  "is_seq_field (tags (doc pets_v1)) \<and> is_seq_field (servers (doc pets_v1))
   \<and> is_seq_field (security (doc pets_v1)) \<and> is_map_field (info (doc pets_v1))
   \<and> tags (doc (defineTags (Some JNull) pets_v1)) = Some (JArr [])
   \<and> info (doc (defineInfo None pets_v1)) = Some pets_info
   \<and> is_seq_field (tags (doc (defineTags (Some (JArr [pets_tag])) pets_v1)))
   \<and> tags (doc (defineTags None (defineTags (Some (JArr [pets_tag])) pets_v1)))
       = Some (JArr [pets_tag])"
proof -
  let ?tagged = "defineTags (Some (JArr [pets_tag])) pets_v1"
  have h: "is_seq_field (tags (doc pets_v1))" "is_seq_field (servers (doc pets_v1))"
    "is_seq_field (security (doc pets_v1))" "is_map_field (info (doc pets_v1))"
    by (simp_all add: pets_v1_def pets_info_def)
  have g: "is_seq_field (tags (doc ?tagged))" "is_seq_field (servers (doc ?tagged))"
    "is_seq_field (security (doc ?tagged))" "is_map_field (info (doc ?tagged))"
    by (simp_all add: doc_defineTags pets_v1_def pets_info_def)
  have v: "elements (tags (doc pets_v1)) = []"
    "JObj (entries (info (doc pets_v1))) = pets_info"
    "elements (tags (doc ?tagged)) = [pets_tag]"
    by (simp_all add: doc_defineTags pets_v1_def pets_info_def)
  from nullish_fragment_tolerated [of "Some JNull" pets_v1, OF disjI2 [OF refl] h]
  have "tags (doc (defineTags (Some JNull) pets_v1)) = Some (JArr (elements (tags (doc pets_v1))))"
    by blast
  moreover from nullish_fragment_tolerated [of None pets_v1, OF disjI1 [OF refl] h]
  have "info (doc (defineInfo None pets_v1)) = Some (JObj (entries (info (doc pets_v1))))"
    by blast
  moreover from nullish_fragment_tolerated [of None ?tagged, OF disjI1 [OF refl] g]
  have "tags (doc (defineTags None ?tagged)) = Some (JArr (elements (tags (doc ?tagged))))"
    by blast
  ultimately show ?thesis
    using h g(1) by (simp add: v)
qed

end
